theory Spec2Isabelle
  imports Complex_Main
begin

text \<open>
  The analytical core of the coaching assistant: \<open>PerformanceAnalyzer\<close>
  (\<open>core/performance_analyzer.py\<close>: outlier detection, trend, improvement
  analysis) and \<open>ProgressTracker\<close> (\<open>core/progress_tracker.py\<close>: comparison
  with the history, trends per lookback window, improvement rates, milestones,
  overall progress), with the pandas, numpy and scipy operations they call.
\<close>

section \<open>Floating-point values of the analysis core\<close>

text \<open>
  The program computes with Python and numpy floats.  They are modelled as real
  numbers extended by the three special values of IEEE arithmetic, so that a
  division by zero is a value of the model as it is a value of the program
  (numpy warns and yields \<open>inf\<close> or \<open>nan\<close>; it does not raise).  Rounding and
  the sign of zero are not modelled: every finite operation is exact.
\<close>

datatype fl = Fin real | PInf | NInf | NaN

fun fneg :: "fl \<Rightarrow> fl" where
  "fneg (Fin a) = Fin (- a)"
| "fneg PInf = NInf"
| "fneg NInf = PInf"
| "fneg NaN = NaN"

fun fadd :: "fl \<Rightarrow> fl \<Rightarrow> fl" where
  "fadd NaN _ = NaN"
| "fadd _ NaN = NaN"
| "fadd (Fin a) (Fin b) = Fin (a + b)"
| "fadd (Fin _) PInf = PInf"
| "fadd (Fin _) NInf = NInf"
| "fadd PInf (Fin _) = PInf"
| "fadd NInf (Fin _) = NInf"
| "fadd PInf PInf = PInf"
| "fadd NInf NInf = NInf"
| "fadd PInf NInf = NaN"
| "fadd NInf PInf = NaN"

definition fsub :: "fl \<Rightarrow> fl \<Rightarrow> fl" where
  "fsub a b = fadd a (fneg b)"

text \<open>The sign of a non-zero finite factor decides the sign of an infinite product.\<close>

definition signed_inf :: "real \<Rightarrow> fl" where
  "signed_inf a = (if 0 < a then PInf else if a < 0 then NInf else NaN)"

fun fmul :: "fl \<Rightarrow> fl \<Rightarrow> fl" where
  "fmul NaN _ = NaN"
| "fmul _ NaN = NaN"
| "fmul (Fin a) (Fin b) = Fin (a * b)"
| "fmul (Fin a) PInf = signed_inf a"
| "fmul (Fin a) NInf = signed_inf (- a)"
| "fmul PInf (Fin b) = signed_inf b"
| "fmul NInf (Fin b) = signed_inf (- b)"
| "fmul PInf PInf = PInf"
| "fmul NInf NInf = PInf"
| "fmul PInf NInf = NInf"
| "fmul NInf PInf = NInf"

text \<open>
  numpy's true division: a finite dividend over zero is an infinity of the
  dividend's sign, zero over zero is \<open>nan\<close>.
\<close>

fun fdiv :: "fl \<Rightarrow> fl \<Rightarrow> fl" where
  "fdiv NaN _ = NaN"
| "fdiv _ NaN = NaN"
| "fdiv (Fin a) (Fin b) = (if b = 0 then signed_inf a else Fin (a / b))"
| "fdiv (Fin _) PInf = Fin 0"
| "fdiv (Fin _) NInf = Fin 0"
| "fdiv PInf (Fin b) = (if 0 \<le> b then PInf else NInf)"
| "fdiv NInf (Fin b) = (if 0 \<le> b then NInf else PInf)"
| "fdiv PInf PInf = NaN"
| "fdiv PInf NInf = NaN"
| "fdiv NInf PInf = NaN"
| "fdiv NInf NInf = NaN"

text \<open>Comparisons: every comparison with \<open>nan\<close> is false, except \<open>!=\<close>.\<close>

fun flt :: "fl \<Rightarrow> fl \<Rightarrow> bool" where
  "flt NaN _ = False"
| "flt _ NaN = False"
| "flt (Fin a) (Fin b) = (a < b)"
| "flt (Fin _) PInf = True"
| "flt (Fin _) NInf = False"
| "flt PInf _ = False"
| "flt NInf NInf = False"
| "flt NInf _ = True"

definition fgt :: "fl \<Rightarrow> fl \<Rightarrow> bool" where
  "fgt a b = flt b a"

definition feq :: "fl \<Rightarrow> fl \<Rightarrow> bool" where
  "feq a b = (a \<noteq> NaN \<and> b \<noteq> NaN \<and> a = b)"

definition fne :: "fl \<Rightarrow> fl \<Rightarrow> bool" where
  "fne a b = (\<not> feq a b)"

definition fge :: "fl \<Rightarrow> fl \<Rightarrow> bool" where
  "fge a b = (fgt a b \<or> feq a b)"

fun fabs :: "fl \<Rightarrow> fl" where
  "fabs (Fin a) = Fin \<bar>a\<bar>"
| "fabs PInf = PInf"
| "fabs NInf = PInf"
| "fabs NaN = NaN"

fun fsqrt :: "fl \<Rightarrow> fl" where
  "fsqrt (Fin a) = (if a < 0 then NaN else Fin (sqrt a))"
| "fsqrt PInf = PInf"
| "fsqrt NInf = NaN"
| "fsqrt NaN = NaN"

text \<open>
  Python's built-in \<open>min(a, b)\<close> and \<open>max(a, b)\<close> keep the first argument
  unless the second compares strictly smaller (larger); \<open>max\<close> over an iterable
  does the same from its first element and raises \<open>ValueError\<close> on an empty one.
\<close>

definition py_min :: "fl \<Rightarrow> fl \<Rightarrow> fl" where
  "py_min a b = (if flt b a then b else a)"

definition py_max :: "fl \<Rightarrow> fl \<Rightarrow> fl" where
  "py_max a b = (if fgt b a then b else a)"

datatype error = ValueError

fun py_max_iter :: "fl list \<Rightarrow> error + fl" where
  "py_max_iter [] = Inl ValueError"
| "py_max_iter (x # xs) = Inr (foldl py_max x xs)"

section \<open>pandas reductions on a series\<close>

text \<open>
  A series holds finite observations (the columns the program reads are numeric
  and the tracker drops missing values), so it is a list of reals.  The
  reductions follow pandas: the mean of an empty series and the sample standard
  deviation (\<open>ddof = 1\<close>) of fewer than two values are \<open>nan\<close>; \<open>quantile\<close>
  interpolates linearly between the two order statistics around position
  \<open>(n - 1) * q\<close> and is \<open>nan\<close> on an empty series.
\<close>

type_synonym series = "real list"

definition mean_r :: "real list \<Rightarrow> real" where
  "mean_r xs = sum_list xs / real (length xs)"

definition pd_mean :: "series \<Rightarrow> fl" where
  "pd_mean xs = (if xs = [] then NaN else Fin (mean_r xs))"

definition var_r :: "real list \<Rightarrow> real" where
  "var_r xs = sum_list (map (\<lambda>x. (x - mean_r xs)\<^sup>2) xs) / real (length xs - 1)"

definition pd_std :: "series \<Rightarrow> fl" where
  "pd_std xs = (if length xs < 2 then NaN else Fin (sqrt (var_r xs)))"

text \<open>
  For a non-empty series and \<open>q\<close> between 0 and 1 both indices of
  \<open>quantile_r\<close> lie inside the sorted series.
\<close>

definition quantile_r :: "real \<Rightarrow> real list \<Rightarrow> real" where
  "quantile_r q xs =
     (let s = sort xs;
          pos = real (length xs - 1) * q;
          lo = nat \<lfloor>pos\<rfloor>;
          hi = min (lo + 1) (length xs - 1);
          g = pos - real lo
      in s ! lo + g * (s ! hi - s ! lo))"

definition pd_quantile :: "real \<Rightarrow> series \<Rightarrow> fl" where
  "pd_quantile q xs = (if xs = [] then NaN else Fin (quantile_r q xs))"

text \<open>\<open>data.tail(n)\<close>: the last \<open>n\<close> observations, all of them when there are fewer.\<close>

definition tail :: "nat \<Rightarrow> 'a list \<Rightarrow> 'a list" where
  "tail n xs = drop (length xs - n) xs"

text \<open>\<open>data[~outliers]\<close>: the observations whose mask entry is false.\<close>

definition select_not :: "bool list \<Rightarrow> 'a list \<Rightarrow> 'a list" where
  "select_not msk xs = map snd (filter (\<lambda>(b, x). \<not> b) (zip msk xs))"

section \<open>PerformanceAnalyzer\<close>

subsection \<open>detect_outliers\<close>

text \<open>
  The mask marks the observations outside the bounds.  The count of the marked
  ones is a numpy integer, so the percentage is a numpy division by the length
  of the series: on the empty series it is \<open>0/0\<close>, a \<open>nan\<close> and no exception.
\<close>

record outlier_stats =
  total_outliers :: nat
  outlier_percentage :: fl
  lower_bound :: fl
  upper_bound :: fl

definition detect_outliers :: "real \<Rightarrow> series \<Rightarrow> bool list \<times> outlier_stats" where
  "detect_outliers threshold_multiplier data =
     (let Q1 = pd_quantile (1/4) data;
          Q3 = pd_quantile (3/4) data;
          IQR = fsub Q3 Q1;
          lower = fsub Q1 (fmul (Fin threshold_multiplier) IQR);
          upper = fadd Q3 (fmul (Fin threshold_multiplier) IQR);
          outliers = map (\<lambda>x. flt (Fin x) lower \<or> fgt (Fin x) upper) data;
          total = length (filter id outliers)
      in (outliers,
          \<lparr>total_outliers = total,
           outlier_percentage =
             fmul (fdiv (Fin (real total)) (Fin (real (length data)))) (Fin 100),
           lower_bound = lower,
           upper_bound = upper\<rparr>))"

subsection \<open>_analyze_improvement_needs\<close>

record metric_config =
  threshold :: real
  higher_better :: bool

definition metric_configs :: "string \<Rightarrow> metric_config option" where
  "metric_configs metric =
     (if metric = ''accuracy'' then Some \<lparr>threshold = -1, higher_better = True\<rparr>
      else if metric = ''reaction_time'' then Some \<lparr>threshold = 1, higher_better = False\<rparr>
      else if metric = ''decision_making'' then Some \<lparr>threshold = -1, higher_better = True\<rparr>
      else if metric = ''teamwork'' then Some \<lparr>threshold = -1, higher_better = True\<rparr>
      else None)"

definition config_of :: "string \<Rightarrow> metric_config" where
  "config_of metric =
     (case metric_configs metric of
        Some c \<Rightarrow> c
      | None \<Rightarrow> \<lparr>threshold = -1, higher_better = True\<rparr>)"

record improvement_data =
  needs_improvement :: bool
  z_score :: fl
  recent_performance_mean :: fl
  recent_performance_vs_historical :: fl
  suggested_target :: fl

definition analyze_improvement_needs :: "series \<Rightarrow> series \<Rightarrow> string \<Rightarrow> improvement_data" where
  "analyze_improvement_needs raw_data clean_data metric =
     (let recent_window = 5;
          recent_mean = pd_mean (tail recent_window raw_data);
          historical_mean = pd_mean clean_data;
          historical_std = pd_std clean_data;
          config = config_of metric;
          z = fdiv (fsub recent_mean historical_mean) historical_std
      in \<lparr>needs_improvement =
            (if higher_better config then flt z (Fin (threshold config))
             else fgt z (Fin (threshold config))),
          z_score = z,
          recent_performance_mean = recent_mean,
          recent_performance_vs_historical =
            fmul (fdiv (fsub recent_mean historical_mean) historical_mean) (Fin 100),
          suggested_target =
            fadd historical_mean
              (if higher_better config then historical_std else fneg historical_std)\<rparr>)"

subsection \<open>scipy's linear regression\<close>

text \<open>
  \<open>scipy.stats.linregress(x, y)\<close>, as the library computes it: it rejects empty
  inputs, inputs of different lengths and, for more than one point, identical
  \<open>x\<close> values; otherwise it returns slope, intercept, correlation, p-value and
  standard error of the slope from the biased covariances.  The slope is a
  numpy division, so a single point (zero variance of \<open>x\<close>) gives \<open>nan\<close>.
  The p-value of the t statistic needs Student's distribution, which is taken
  as the parameter \<open>ttest\<close> (degrees of freedom and statistic to p-value); two
  points have the p-value the library fixes for them.
\<close>

definition arange :: "nat \<Rightarrow> real list" where
  "arange n = map real [0..<n]"

definition cov_r :: "real list \<Rightarrow> real list \<Rightarrow> real" where
  "cov_r xs ys =
     sum_list (map (\<lambda>(x, y). (x - mean_r xs) * (y - mean_r ys)) (zip xs ys))
       / real (length xs)"

definition TINY :: real where
  "TINY = 1 / 10 ^ 20"

type_synonym ttest = "int \<Rightarrow> fl \<Rightarrow> fl"

definition linregress ::
  "ttest \<Rightarrow> real list \<Rightarrow> real list \<Rightarrow> error + (fl \<times> fl \<times> real \<times> fl \<times> fl)" where
  "linregress ttest x y =
     (if x = [] \<or> y = [] then Inl ValueError
      else if length x \<noteq> length y then Inl ValueError
      else if Max (set x) = Min (set x) \<and> 1 < length x then Inl ValueError
      else
        let n = length x;
            xmean = mean_r x;
            ymean = mean_r y;
            ssxm = cov_r x x;
            ssxym = cov_r x y;
            ssym = cov_r y y;
            r = (if ssxm = 0 \<or> ssym = 0 then 0
                 else let r0 = ssxym / sqrt (ssxm * ssym)
                      in if 1 < r0 then 1 else if r0 < -1 then -1 else r0);
            slope = fdiv (Fin ssxym) (Fin ssxm);
            intercept = fsub (Fin ymean) (fmul slope (Fin xmean));
            df = int n - 2;
            prob = (if n = 2 then (if y ! 0 = y ! 1 then Fin 1 else Fin 0)
                    else ttest df
                      (fmul (Fin r)
                        (fsqrt (fdiv (Fin (real_of_int df))
                                     (Fin ((1 - r + TINY) * (1 + r + TINY)))))));
            slope_stderr = (if n = 2 then Fin 0
                    else fsqrt (fdiv (fdiv (Fin ((1 - r\<^sup>2) * ssym)) (Fin ssxm))
                                     (Fin (real_of_int df))))
        in Inr (slope, intercept, r, prob, slope_stderr))"

subsection \<open>_calculate_trend\<close>

datatype direction = Improving | Declining

datatype strength_label = Strong | Moderate | Weak

record trend_info =
  trend_direction :: direction
  trend_slope :: fl
  r_squared :: real
  trend_significance :: bool
  trend_strength :: strength_label

definition calculate_trend :: "ttest \<Rightarrow> series \<Rightarrow> error + trend_info" where
  "calculate_trend ttest data =
     (case linregress ttest (arange (length data)) data of
        Inl e \<Rightarrow> Inl e
      | Inr (slope, intercept, r_value, p_value, std_err) \<Rightarrow>
          Inr \<lparr>trend_direction = (if fgt slope (Fin 0) then Improving else Declining),
               trend_slope = slope,
               r_squared = r_value\<^sup>2,
               trend_significance = flt p_value (Fin (5/100)),
               trend_strength =
                 (if 7/10 < \<bar>r_value\<bar> then Strong
                  else if 3/10 < \<bar>r_value\<bar> then Moderate else Weak)\<rparr>)"

subsection \<open>analyze_performance\<close>

record basic_stats =
  mean :: fl
  median :: fl
  std :: fl

record current_stats = basic_stats +
  trend :: trend_info

record metric_analysis =
  current_stats :: current_stats
  outlier_stats :: outlier_stats
  clean_stats :: basic_stats
  improvement_analysis :: improvement_data

text \<open>The body of the loop of \<open>analyze_performance\<close>, for one column that is present.\<close>

definition analyze_metric :: "real \<Rightarrow> ttest \<Rightarrow> series \<Rightarrow> string \<Rightarrow> error + metric_analysis" where
  "analyze_metric threshold_multiplier ttest data column =
     (let (outliers, ostats) = detect_outliers threshold_multiplier data;
          clean_data = select_not outliers data
      in case calculate_trend ttest data of
           Inl e \<Rightarrow> Inl e
         | Inr tr \<Rightarrow>
             Inr \<lparr>current_stats =
                    \<lparr>mean = pd_mean data, median = pd_quantile (1/2) data,
                     std = pd_std data, trend = tr\<rparr>,
                  outlier_stats = ostats,
                  clean_stats =
                    \<lparr>mean = pd_mean clean_data, median = pd_quantile (1/2) clean_data,
                     std = pd_std clean_data\<rparr>,
                  improvement_analysis =
                    analyze_improvement_needs data clean_data column\<rparr>)"

text \<open>
  The data frame is a map from column names to series; the result lists the
  analysed metrics in the order of the loop, and the first exception ends it.
\<close>

fun analyze_columns ::
  "real \<Rightarrow> ttest \<Rightarrow> (string \<rightharpoonup> series) \<Rightarrow> string list \<Rightarrow> error + (string \<times> metric_analysis) list" where
  "analyze_columns k ttest historical_data [] = Inr []"
| "analyze_columns k ttest historical_data (column # columns) =
     (case historical_data column of
        None \<Rightarrow> analyze_columns k ttest historical_data columns
      | Some data \<Rightarrow>
          (case analyze_metric k ttest data column of
             Inl e \<Rightarrow> Inl e
           | Inr m \<Rightarrow>
               (case analyze_columns k ttest historical_data columns of
                  Inl e \<Rightarrow> Inl e
                | Inr ms \<Rightarrow> Inr ((column, m) # ms))))"

definition analyze_performance ::
  "real \<Rightarrow> ttest \<Rightarrow> (string \<rightharpoonup> series) \<Rightarrow> error + (string \<times> metric_analysis) list" where
  "analyze_performance threshold_multiplier ttest historical_data =
     analyze_columns threshold_multiplier ttest historical_data
       [''accuracy'', ''reaction_time'', ''decision_making'', ''teamwork'']"

section \<open>ProgressTracker\<close>

text \<open>
  A metric's history is its series with the timestamp of each row, time counted
  in days; the rows of a lookback window are those not older than the cutoff.
  The clock is a parameter, read once.  The lookback periods are the
  dictionary of the constructor in its order, with distinct names.
\<close>

type_synonym history = "(real \<times> real) list"

definition default_lookback_periods :: "(string \<times> int) list" where
  "default_lookback_periods = [(''short_term'', 7), (''medium_term'', 30), (''long_term'', 90)]"

definition init_lookback_periods :: "(string \<times> int) list option \<Rightarrow> (string \<times> int) list" where
  "init_lookback_periods lookback_periods =
     (case lookback_periods of
        None \<Rightarrow> default_lookback_periods
      | Some [] \<Rightarrow> default_lookback_periods
      | Some ps \<Rightarrow> ps)"

definition period_data :: "real \<Rightarrow> history \<Rightarrow> int \<Rightarrow> series" where
  "period_data now history days =
     map snd (filter (\<lambda>(t, v). now - real_of_int days \<le> t) history)"

subsection \<open>_compare_with_history\<close>

text \<open>\<open>scipy.stats.percentileofscore\<close> with its default kind, \<open>rank\<close>.\<close>

definition percentileofscore :: "series \<Rightarrow> fl \<Rightarrow> fl" where
  "percentileofscore a score =
     (if a = [] then NaN
      else
        let left = length (filter (\<lambda>x. flt (Fin x) score) a);
            right = length (filter (\<lambda>x. flt (Fin x) score \<or> feq (Fin x) score) a);
            plus1 = (if left < right then 1 else 0)
        in Fin (real (left + right + plus1) * (50 / real (length a))))"

record comparison =
  average :: fl
  change :: fl
  comparison_z_score :: fl
  percentile :: fl

fun compare_with_history ::
  "real \<Rightarrow> (string \<times> int) list \<Rightarrow> fl \<Rightarrow> history \<Rightarrow> (string \<times> comparison) list" where
  "compare_with_history now [] current_value history = []"
| "compare_with_history now ((period_name, days) # periods) current_value history =
     (let pdata = period_data now history days;
          rest = compare_with_history now periods current_value history
      in if pdata \<noteq> [] then
           (let period_avg = pd_mean pdata;
                period_std = pd_std pdata
            in (period_name,
                \<lparr>average = period_avg,
                 change = fmul (fdiv (fsub current_value period_avg) period_avg) (Fin 100),
                 comparison_z_score =
                   (if fgt period_std (Fin 0)
                    then fdiv (fsub current_value period_avg) period_std else Fin 0),
                 percentile = percentileofscore pdata current_value\<rparr>) # rest)
         else rest)"

subsection \<open>_analyze_trend\<close>

record trend_entry =
  slope :: fl
  direction :: direction
  strength :: fl
  significance :: bool
  volatility :: fl

fun analyze_trend ::
  "ttest \<Rightarrow> real \<Rightarrow> (string \<times> int) list \<Rightarrow> history \<Rightarrow> error + (string \<times> trend_entry) list" where
  "analyze_trend ttest now [] history = Inr []"
| "analyze_trend ttest now ((period_name, days) # periods) history =
     (let pdata = period_data now history days
      in if 2 \<le> length pdata then
           (case linregress ttest (arange (length pdata)) pdata of
              Inl e \<Rightarrow> Inl e
            | Inr (sl, intercept, r_value, p_value, std_err) \<Rightarrow>
                (case analyze_trend ttest now periods history of
                   Inl e \<Rightarrow> Inl e
                 | Inr rest \<Rightarrow>
                     Inr ((period_name,
                           \<lparr>slope = sl,
                            direction = (if fgt sl (Fin 0) then Improving else Declining),
                            strength = Fin \<bar>r_value\<bar>,
                            significance = flt p_value (Fin (5/100)),
                            volatility = fdiv (pd_std pdata) (pd_mean pdata)\<rparr>) # rest)))
         else analyze_trend ttest now periods history)"

subsection \<open>_calculate_consistency and _calculate_improvement_rate\<close>

definition calculate_consistency :: "series \<Rightarrow> fl" where
  "calculate_consistency data =
     (if length data < 2 then Fin 100
      else
        let cv = fdiv (pd_std data) (pd_mean data)
        in fmul (Fin 100) (fsub (Fin 1) (py_min cv (Fin 1))))"

record improvement_rate =
  total_change_percent :: fl
  daily_rate :: fl
  weekly_rate :: fl
  projected_30d :: fl
  consistency :: fl

fun calculate_improvement_rate ::
  "real \<Rightarrow> (string \<times> int) list \<Rightarrow> fl \<Rightarrow> history \<Rightarrow> (string \<times> improvement_rate) list" where
  "calculate_improvement_rate now [] current_value history = []"
| "calculate_improvement_rate now ((period_name, days) # periods) current_value history =
     (let pdata = period_data now history days;
          rest = calculate_improvement_rate now periods current_value history
      in case pdata of
           [] \<Rightarrow> rest
         | start_value # _ \<Rightarrow>
             (let total_change = fsub current_value (Fin start_value);
                  rate = fdiv total_change (Fin (real_of_int days))
              in (period_name,
                  \<lparr>total_change_percent = fmul (fdiv total_change (Fin start_value)) (Fin 100),
                   daily_rate = rate,
                   weekly_rate = fmul rate (Fin 7),
                   projected_30d = fadd current_value (fmul rate (Fin 30)),
                   consistency = calculate_consistency pdata\<rparr>) # rest))"

subsection \<open>_track_milestones\<close>

text \<open>
  \<open>numpy.linspace(start, stop, num)\<close> as the library computes it: the indices
  scaled by the step (by the whole distance when the step is zero or there is a
  single sample), shifted by the start, the last sample set to the stop; a
  negative number of samples is a \<open>ValueError\<close>.
\<close>

definition linspace :: "fl \<Rightarrow> fl \<Rightarrow> int \<Rightarrow> error + fl list" where
  "linspace start stop num =
     (if num < 0 then Inl ValueError
      else
        let n = nat num;
            dv = n - 1;
            delta = fsub stop start;
            y0 = map (\<lambda>i. Fin (real i)) [0..<n];
            y1 = (if 0 < dv then
                    (let step = fdiv delta (Fin (real dv))
                     in if feq step (Fin 0)
                        then map (\<lambda>y. fmul (fdiv y (Fin (real dv))) delta) y0
                        else map (\<lambda>y. fmul y step) y0)
                  else map (\<lambda>y. fmul y delta) y0);
            y2 = map (\<lambda>y. fadd y start) y1
        in Inr (if 1 < n then y2[n - 1 := stop] else y2))"

text \<open>
  The tracking record starts empty.  Only when the target differs from the
  current value (Python's \<open>!=\<close>) is the progress computed, where the divisor
  \<open>abs(target_value - current_value)\<close> cannot be zero, and are the milestones
  generated: the samples of \<open>linspace\<close> after the first, numbered from 1.
\<close>

record milestone =
  level :: nat
  milestone_value :: fl
  progress :: fl

record milestone_tracking =
  total_progress :: fl
  next_milestone :: "milestone option"
  remaining_milestones :: "milestone list"
  completed_milestones :: "milestone list"

definition track_step :: "fl \<Rightarrow> fl \<Rightarrow> milestone_tracking \<Rightarrow> nat \<times> fl \<Rightarrow> milestone_tracking" where
  "track_step current_value target_value tracking iv =
     (let m = \<lparr>level = fst iv,
               milestone_value = snd iv,
               progress =
                 fmul (fdiv (fsub (snd iv) current_value) (fsub target_value current_value))
                      (Fin 100)\<rparr>
      in if fge current_value (snd iv)
         then tracking\<lparr>completed_milestones := completed_milestones tracking @ [m]\<rparr>
         else if next_milestone tracking = None
         then tracking\<lparr>next_milestone := Some m\<rparr>
         else tracking\<lparr>remaining_milestones := remaining_milestones tracking @ [m]\<rparr>)"

definition track_milestones :: "fl \<Rightarrow> fl \<Rightarrow> int \<Rightarrow> error + milestone_tracking" where
  "track_milestones current_value target_value num_milestones =
     (let milestone_tracking =
            \<lparr>total_progress = Fin 0, next_milestone = None,
             remaining_milestones = [], completed_milestones = []\<rparr>
      in if fne target_value current_value then
           (let tp = fdiv (fsub current_value target_value)
                          (fabs (fsub target_value current_value));
                tracking = milestone_tracking
                  \<lparr>total_progress := py_max (Fin 0) (py_min (Fin 100) (fmul tp (Fin 100)))\<rparr>
            in case linspace current_value target_value (num_milestones + 1) of
                 Inl e \<Rightarrow> Inl e
               | Inr milestone_values \<Rightarrow>
                   Inr (foldl (track_step current_value target_value) tracking
                          (zip [1..<length milestone_values] (tl milestone_values))))
         else Inr milestone_tracking)"

subsection \<open>track_progress\<close>

record progress_entry =
  current_value :: fl
  target_value :: "fl option"
  historical_comparison :: "(string \<times> comparison) list"
  trend_analysis :: "(string \<times> trend_entry) list"
  improvement_rate :: "(string \<times> improvement_rate) list"
  milestone_progress :: milestone_tracking

text \<open>
  \<open>target_metrics.get(metric, current_value * 1.2)\<close>: the target of a metric,
  a fifth above the current value when none is given.
\<close>

definition target_or_default :: "(string \<rightharpoonup> fl) \<Rightarrow> string \<Rightarrow> fl \<Rightarrow> fl" where
  "target_or_default target_metrics metric cv =
     (case target_metrics metric of
        None \<Rightarrow> fmul cv (Fin (12/10))
      | Some t \<Rightarrow> t)"

text \<open>
  The loop of \<open>track_progress\<close> over the current statistics; the historical
  data maps a column to its history with the missing values dropped.
\<close>

fun track_progress ::
  "ttest \<Rightarrow> real \<Rightarrow> (string \<times> int) list \<Rightarrow> (string \<times> fl) list \<Rightarrow> (string \<rightharpoonup> history)
     \<Rightarrow> (string \<rightharpoonup> fl) \<Rightarrow> error + (string \<times> progress_entry) list" where
  "track_progress ttest now periods [] historical_data target_metrics = Inr []"
| "track_progress ttest now periods ((metric, cv) # stats) historical_data target_metrics =
     (case historical_data metric of
        None \<Rightarrow> track_progress ttest now periods stats historical_data target_metrics
      | Some metric_history \<Rightarrow>
          if metric_history \<noteq> [] then
            (case analyze_trend ttest now periods metric_history of
               Inl e \<Rightarrow> Inl e
             | Inr ta \<Rightarrow>
                 (case track_milestones cv (target_or_default target_metrics metric cv) 5 of
                    Inl e \<Rightarrow> Inl e
                  | Inr mp \<Rightarrow>
                      (case track_progress ttest now periods stats historical_data
                              target_metrics of
                         Inl e \<Rightarrow> Inl e
                       | Inr report \<Rightarrow>
                           Inr ((metric,
                                 \<lparr>current_value = cv,
                                  target_value = target_metrics metric,
                                  historical_comparison =
                                    compare_with_history now periods cv metric_history,
                                  trend_analysis = ta,
                                  improvement_rate =
                                    calculate_improvement_rate now periods cv metric_history,
                                  milestone_progress = mp\<rparr>) # report))))
          else track_progress ttest now periods stats historical_data target_metrics)"

subsection \<open>_calculate_overall_progress\<close>

definition signed_strength :: "trend_entry \<Rightarrow> fl" where
  "signed_strength tr = (if direction tr = Improving then strength tr else fneg (strength tr))"

definition py_sum :: "fl list \<Rightarrow> fl" where
  "py_sum xs = foldl fadd (Fin 0) xs"

text \<open>
  The loop over the report's values: the first metric whose trend analysis is
  empty ends it with the \<open>ValueError\<close> of \<open>max\<close> on an empty sequence.
\<close>

fun progress_scores :: "progress_entry list \<Rightarrow> error + fl list" where
  "progress_scores [] = Inr []"
| "progress_scores (analysis # rest) =
     (case py_max_iter (map (\<lambda>(name, tr). signed_strength tr) (trend_analysis analysis)) of
        Inl e \<Rightarrow> Inl e
      | Inr strongest \<Rightarrow>
          (case progress_scores rest of
             Inl e \<Rightarrow> Inl e
           | Inr scores \<Rightarrow>
               Inr (fmul (total_progress (milestone_progress analysis))
                         (fadd (Fin 1) strongest) # scores)))"

definition calculate_overall_progress :: "(string \<times> progress_entry) list \<Rightarrow> error + fl" where
  "calculate_overall_progress progress_report =
     (if progress_report = [] then Inr (Fin 0)
      else
        case progress_scores (map snd progress_report) of
          Inl e \<Rightarrow> Inl e
        | Inr scores \<Rightarrow>
            Inr (py_min (Fin 100)
                   (py_max (Fin 0) (fdiv (py_sum scores) (Fin (real (length scores)))))))"

section \<open>Notions used to state the properties\<close>



text \<open>
  The overall score in the words of the specification, on reports whose numbers
  are finite: each metric's milestone progress times one plus its largest signed
  trend strength, averaged over the metrics and clamped to \<open>[0, 100]\<close>.
\<close>

definition is_fin :: "fl \<Rightarrow> bool" where
  "is_fin x = (case x of Fin _ \<Rightarrow> True | _ \<Rightarrow> False)"

definition fin_val :: "fl \<Rightarrow> real" where
  "fin_val x = (case x of Fin a \<Rightarrow> a | _ \<Rightarrow> 0)"

definition finite_entry :: "progress_entry \<Rightarrow> bool" where
  "finite_entry a =
     (is_fin (total_progress (milestone_progress a))
      \<and> list_all (\<lambda>(name, tr). is_fin (strength tr)) (trend_analysis a))"

definition signed_strength_spec :: "trend_entry \<Rightarrow> real" where
  "signed_strength_spec tr =
     (if direction tr = Improving then fin_val (strength tr) else - fin_val (strength tr))"

definition metric_score_spec :: "progress_entry \<Rightarrow> real" where
  "metric_score_spec a =
     fin_val (total_progress (milestone_progress a))
       * (1 + Max (set (map (\<lambda>(name, tr). signed_strength_spec tr) (trend_analysis a))))"

definition overall_progress_spec :: "(string \<times> progress_entry) list \<Rightarrow> real" where
  "overall_progress_spec report =
     max 0 (min 100
       (sum_list (map (\<lambda>(metric, a). metric_score_spec a) report) / real (length report)))"

text \<open>The tracking record \<open>_track_milestones\<close> starts from.\<close>

definition no_milestones :: milestone_tracking where
  "no_milestones =
     \<lparr>total_progress = Fin 0, next_milestone = None,
      remaining_milestones = [], completed_milestones = []\<rparr>"


text \<open>
  The improvement analysis of a series as \<open>analyze_performance\<close> calls it: on
  the series itself and on its clean part, \<open>data[~outliers]\<close> with the mask of
  \<open>detect_outliers\<close>.
\<close>

definition clean_series :: "real \<Rightarrow> series \<Rightarrow> series" where
  "clean_series threshold_multiplier data =
     select_not (fst (detect_outliers threshold_multiplier data)) data"

definition classify :: "real \<Rightarrow> series \<Rightarrow> string \<Rightarrow> improvement_data" where
  "classify threshold_multiplier data metric =
     analyze_improvement_needs data (clean_series threshold_multiplier data) metric"

section \<open>Evaluating the arithmetic\<close>

lemmas fl_defs = fsub_def fgt_def fge_def feq_def fne_def py_min_def py_max_def signed_inf_def

lemmas pd_defs = pd_mean_def pd_std_def pd_quantile_def quantile_r_def mean_r_def var_r_def
  tail_def select_not_def

section \<open>Outlier detection on the empty series\<close>



section \<open>Improvement analysis on a baseline without variance\<close>

text \<open>
  C1: a series whose outlier-cleaned part has standard deviation zero should get
  \<open>z_score = 0\<close> and, for a higher-is-better metric, no need for improvement.
  The code divides by the standard deviation unguarded.  On eight observations
  of 70 followed by two of 40 the quartiles are both 70, the two low values are
  the outliers, the clean series is constant, and the analysis of
  \<open>accuracy\<close> yields \<open>z_score = -inf\<close> and \<open>needs_improvement = True\<close>; on a
  constant series the \<open>z_score\<close> is \<open>nan\<close>.
\<close>

theorem improvement_needs_zero_std_diverges:
  "select_not (fst (detect_outliers (3/2) [70, 70, 70, 70, 70, 70, 70, 70, 40, 40]))
       [70, 70, 70, 70, 70, 70, 70, 70, 40, 40::real] = [70, 70, 70, 70, 70, 70, 70, 70]
   \<and> pd_std [70, 70, 70, 70, 70, 70, 70, 70] = Fin 0
   \<and> z_score (analyze_improvement_needs [70, 70, 70, 70, 70, 70, 70, 70, 40, 40]
         [70, 70, 70, 70, 70, 70, 70, 70] ''accuracy'') = NInf
   \<and> needs_improvement (analyze_improvement_needs [70, 70, 70, 70, 70, 70, 70, 70, 40, 40]
         [70, 70, 70, 70, 70, 70, 70, 70] ''accuracy'')
   \<and> z_score (analyze_improvement_needs [70, 70, 70, 70, 70] [70, 70, 70, 70, 70]
         ''accuracy'') = NaN"
  by (simp add: detect_outliers_def analyze_improvement_needs_def Let_def pd_defs
        config_of_def metric_configs_def fl_defs)

text \<open>
  The tracker's comparison with the history guards the same division: its
  z-score is 0 whenever the window's standard deviation is not positive.
\<close>

lemma compare_with_history_guards_std:
  assumes "period_data now history days \<noteq> []"
    and "\<not> fgt (pd_std (period_data now history days)) (Fin 0)"
  shows "comparison_z_score
           (snd (hd (compare_with_history now [(name, days)] cv history))) = Fin 0"
  using assms by (simp add: Let_def)

section \<open>Trend analysis on fewer than two points\<close>

text \<open>
  C3: trend analysis on fewer than two points should signal insufficient data
  instead of returning a trend.  \<open>_calculate_trend\<close> has no length check: on the
  one-point series \<open>[70]\<close> the regression divides zero by zero and the function
  returns a trend with slope \<open>nan\<close>, direction declining and strength weak; so
  does \<open>analyze_performance\<close> on a frame with that single row.  On the empty
  series the \<open>ValueError\<close> of the regression escapes.
\<close>

theorem calculate_trend_single_point_returns:
  "calculate_trend ttest [70] =
     Inr \<lparr>trend_direction = Declining, trend_slope = NaN, r_squared = 0,
          trend_significance = flt (ttest (- 1) NaN) (Fin (5/100)),
          trend_strength = Weak\<rparr>
   \<and> (\<exists>m. analyze_performance (3/2) ttest (Map.empty(''accuracy'' \<mapsto> [70]))
            = Inr [(''accuracy'', m)]
          \<and> trend_slope (trend (current_stats m)) = NaN
          \<and> trend_direction (trend (current_stats m)) = Declining)
   \<and> calculate_trend ttest [] = Inl ValueError"
  by (simp add: analyze_performance_def analyze_metric_def detect_outliers_def
        calculate_trend_def linregress_def arange_def Let_def fl_defs mean_r_def cov_r_def
        TINY_def pd_quantile_def)

text \<open>
  The tracker's per-window analysis has the check: the regression on the indices
  of a window of at least two points never raises, and the result has a trend
  entry exactly for the lookback periods whose window holds at least two
  points.
\<close>

lemma linregress_arange_defined:
  assumes "2 \<le> length ys"
  shows "\<exists>res. linregress ttest (arange (length ys)) ys = Inr res"
proof -
  let ?x = "arange (length ys)"
  have fin: "finite (set ?x)" by simp
  have i0: "(0::nat) \<in> {0..<length ys}" and i1: "(1::nat) \<in> {0..<length ys}"
    using assms by auto
  have "real 0 \<in> real ` {0..<length ys}" using i0 by (rule imageI)
  moreover have "real 1 \<in> real ` {0..<length ys}" using i1 by (rule imageI)
  ultimately have "0 \<in> set ?x" "1 \<in> set ?x"
    by (simp_all add: arange_def)
  then have "Min (set ?x) \<le> 0" "1 \<le> Max (set ?x)"
    using fin by (auto intro: Min_le Max_ge)
  then have ne: "Max (set ?x) \<noteq> Min (set ?x)" by linarith
  have "?x \<noteq> []" "ys \<noteq> []" "length ?x = length ys"
    using assms by (auto simp: arange_def)
  with ne show ?thesis
    by (simp add: linregress_def Let_def)
qed

lemma analyze_trend_keys:
  "\<exists>ta. analyze_trend ttest now periods history = Inr ta
     \<and> map fst ta =
         map fst (filter (\<lambda>(name, days). 2 \<le> length (period_data now history days)) periods)"
proof (induction periods)
  case Nil
  then show ?case by simp
next
  case (Cons p periods)
  obtain name days where p: "p = (name, days)" by (cases p)
  from Cons obtain ta where ta: "analyze_trend ttest now periods history = Inr ta"
    "map fst ta =
       map fst (filter (\<lambda>(name, days). 2 \<le> length (period_data now history days)) periods)"
    by blast
  show ?case
  proof (cases "2 \<le> length (period_data now history days)")
    case True
    from linregress_arange_defined [OF True] obtain res where
      "linregress ttest (arange (length (period_data now history days)))
         (period_data now history days) = Inr res" by blast
    with True ta show ?thesis
      unfolding p by (cases res) (simp add: Let_def)
  next
    case False
    with ta show ?thesis unfolding p by (simp add: Let_def)
  qed
qed

lemma analyze_trend_omits_short_windows:
  assumes "analyze_trend ttest now periods history = Inr ta"
    and "distinct (map fst periods)"
    and "(name, days) \<in> set periods"
  shows "name \<in> fst ` set ta \<longleftrightarrow> 2 \<le> length (period_data now history days)"
proof -
  from analyze_trend_keys [of ttest now periods history] assms(1)
  have keys: "map fst ta =
      map fst (filter (\<lambda>(name, days). 2 \<le> length (period_data now history days)) periods)"
    by simp
  have "fst ` set ta = set (map fst ta)" by simp
  also have "\<dots> = fst ` {p \<in> set periods. case p of (name, days) \<Rightarrow>
      2 \<le> length (period_data now history days)}"
    unfolding keys by simp
  finally have eq: "fst ` set ta = fst ` {p \<in> set periods. case p of (name, days) \<Rightarrow>
      2 \<le> length (period_data now history days)}" .
  show ?thesis
  proof
    assume "name \<in> fst ` set ta"
    with eq obtain d where d: "(name, d) \<in> set periods"
      "2 \<le> length (period_data now history d)" by auto
    from assms(2) d(1) assms(3) have "d = days"
      by (rule eq_key_imp_eq_value)
    with d(2) show "2 \<le> length (period_data now history days)" by simp
  next
    assume "2 \<le> length (period_data now history days)"
    with assms(3) have "(name, days) \<in> {p \<in> set periods. case p of (name, days) \<Rightarrow>
      2 \<le> length (period_data now history days)}" by simp
    then have "fst (name, days) \<in> fst ` {p \<in> set periods. case p of (name, days) \<Rightarrow>
      2 \<le> length (period_data now history days)}" by (rule imageI)
    with eq show "name \<in> fst ` set ta" by simp
  qed
qed

section \<open>Consistency of a window\<close>

text \<open>
  A window of fewer than two points has consistency 100, and a window with a
  positive mean has a consistency between 0 and 100.
\<close>

lemma var_r_nonneg: "0 \<le> var_r xs"
  unfolding var_r_def
  by (intro divide_nonneg_nonneg sum_list_nonneg) auto

lemma calculate_consistency_in_range:
  assumes "length data < 2 \<or> 0 < mean_r data"
  shows "\<exists>s. calculate_consistency data = Fin s \<and> 0 \<le> s \<and> s \<le> 100"
proof (cases "length data < 2")
  case True
  then show ?thesis by (simp add: calculate_consistency_def)
next
  case False
  with assms have m: "0 < mean_r data" by simp
  from False have ne: "data \<noteq> []" by auto
  let ?cv = "sqrt (var_r data) / mean_r data"
  have cv: "0 \<le> ?cv" using m var_r_nonneg by simp
  have "calculate_consistency data = Fin (100 * (1 - min ?cv 1))"
    using False ne m
    by (simp add: calculate_consistency_def Let_def pd_std_def pd_mean_def py_min_def fsub_def min_def)
  moreover have "0 \<le> 100 * (1 - min ?cv 1)" "100 * (1 - min ?cv 1) \<le> 100"
    using cv by (simp_all add: min_def)
  ultimately show ?thesis by blast
qed

text \<open>
  C7: the consistency score should lie in \<open>[0, 100]\<close> for every window, also
  one with a negative mean.  The code bounds the coefficient of variation from
  above only: the window \<open>[-3, -2, -1]\<close> has mean \<open>-2\<close> and standard deviation
  1, and its consistency is 150.  A window of zeros has the coefficient
  \<open>0/0\<close> and the consistency \<open>nan\<close>.
\<close>

theorem calculate_consistency_out_of_range:
  "calculate_consistency [- 3, - 2, - 1] = Fin 150 \<and> calculate_consistency [0, 0] = NaN"
  by (simp add: calculate_consistency_def Let_def pd_defs fl_defs)

section \<open>Overall progress of a metric without trend entries\<close>

text \<open>
  C5: a metric whose trend analysis is empty should contribute 0 to the overall
  score.  A history with a single row gives every window fewer than two points,
  so \<open>track_progress\<close> reports the metric with an empty trend analysis, and
  \<open>_calculate_overall_progress\<close> on that report raises the \<open>ValueError\<close> of
  \<open>max\<close> on an empty sequence.
\<close>

theorem overall_progress_empty_trend_raises:
  "\<exists>report.
     track_progress ttest 100 default_lookback_periods [(''accuracy'', Fin 50)]
         (Map.empty(''accuracy'' \<mapsto> [(99, 48)])) Map.empty = Inr report
     \<and> map (\<lambda>(metric, a). trend_analysis a) report = [[]]
     \<and> calculate_overall_progress report = Inl ValueError"
  by (simp add: default_lookback_periods_def period_data_def track_milestones_def
        target_or_default_def linspace_def track_step_def calculate_consistency_def
        percentileofscore_def calculate_overall_progress_def Let_def pd_defs fl_defs upt_rec)

section \<open>Milestones when the target is the current value\<close>

text \<open>
  C10: when the target value equals the current value, milestone tracking
  returns total progress 0, no next milestone and empty lists of completed and
  of remaining milestones, whatever the number of milestones; this includes a
  current value of 0 with no target given, where the default target
  \<open>0 * 1.2\<close> is 0 again.
\<close>

theorem track_milestones_at_target:
  "(feq t c \<longrightarrow>
      track_milestones c t n =
        Inr \<lparr>total_progress = Fin 0, next_milestone = None,
             remaining_milestones = [], completed_milestones = []\<rparr>)
   \<and> (target_metrics metric = None \<longrightarrow>
      track_milestones (Fin 0) (target_or_default target_metrics metric (Fin 0)) n =
        Inr \<lparr>total_progress = Fin 0, next_milestone = None,
             remaining_milestones = [], completed_milestones = []\<rparr>)"
  by (simp add: track_milestones_def target_or_default_def fne_def feq_def)

text \<open>The theorem at the values 50 and 50, and at a metric without target.\<close>

theorem track_milestones_at_target_witness:
  "feq (Fin 50) (Fin 50)
   \<and> track_milestones (Fin 50) (Fin 50) 5 =
        Inr \<lparr>total_progress = Fin 0, next_milestone = None,
             remaining_milestones = [], completed_milestones = []\<rparr>
   \<and> (Map.empty :: string \<rightharpoonup> fl) ''accuracy'' = None
   \<and> track_milestones (Fin 0) (target_or_default Map.empty ''accuracy'' (Fin 0)) 5 =
        Inr \<lparr>total_progress = Fin 0, next_milestone = None,
             remaining_milestones = [], completed_milestones = []\<rparr>"
  using track_milestones_at_target [of "Fin 50" "Fin 50" 5 Map.empty "''accuracy''"]
  by (simp add: feq_def)

section \<open>Round trip of the suggested target\<close>

text \<open>Every metric has one of the two configurations of the table.\<close>

lemma config_of_cases:
  "config_of metric = \<lparr>threshold = - 1, higher_better = True\<rparr>
   \<or> config_of metric = \<lparr>threshold = 1, higher_better = False\<rparr>"
  by (simp add: config_of_def metric_configs_def)

text \<open>
  What \<open>analyze_performance\<close> records for a column is the analysis of the
  series against its own clean part, and it is defined for every series of at
  least two observations.
\<close>

lemma analyze_metric_classify:
  assumes "analyze_metric k ttest data column = Inr m"
  shows "improvement_analysis m = classify k data column"
    and "std (clean_stats m) = pd_std (clean_series k data)"
    and "mean (clean_stats m) = pd_mean (clean_series k data)"
  using assms
  by (auto simp: analyze_metric_def classify_def clean_series_def Let_def
        split: prod.splits sum.splits)

lemma analyze_metric_defined:
  assumes "2 \<le> length data"
  shows "\<exists>m. analyze_metric k ttest data column = Inr m"
proof -
  from linregress_arange_defined [OF assms] obtain res where
    "linregress ttest (arange (length data)) data = Inr res" by blast
  then have "\<exists>tr. calculate_trend ttest data = Inr tr"
    by (cases res) (simp add: calculate_trend_def)
  then show ?thesis
    by (auto simp: analyze_metric_def Let_def split: prod.splits)
qed

text \<open>
  When the recent mean equals the target the analysis itself suggests, the
  deviation from the historical mean is one standard deviation towards the
  better side.
\<close>

lemma round_trip_same_baseline:
  assumes "pd_std clean = Fin s" and "0 < s"
    and "pd_mean (tail 5 raw) = suggested_target (analyze_improvement_needs raw clean metric)"
  shows "suggested_target (analyze_improvement_needs raw clean metric) =
           Fin (if higher_better (config_of metric) then mean_r clean + s else mean_r clean - s)
         \<and> z_score (analyze_improvement_needs raw clean metric) =
           Fin (if higher_better (config_of metric) then 1 else - 1)
         \<and> \<not> needs_improvement (analyze_improvement_needs raw clean metric)"
proof -
  from assms(1) have len: "\<not> length clean < 2"
    by (auto simp: pd_std_def split: if_splits)
  then have ne: "clean \<noteq> []" by auto
  then have m: "pd_mean clean = Fin (mean_r clean)" by (simp add: pd_mean_def)
  from config_of_cases [of metric] show ?thesis
  proof
    assume c: "config_of metric = \<lparr>threshold = - 1, higher_better = True\<rparr>"
    with assms m show ?thesis
      by (simp add: analyze_improvement_needs_def Let_def fl_defs)
  next
    assume c: "config_of metric = \<lparr>threshold = 1, higher_better = False\<rparr>"
    with assms m show ?thesis
      by (simp add: analyze_improvement_needs_def Let_def fl_defs)
  qed
qed

text \<open>
  The series \<open>[1, 0, 0, 0, 0, 0, 2, 2, 2, 2, 2]\<close> has no outliers, mean 1 and
  standard deviation 1; its last five observations have the mean 2.
\<close>

lemma round_trip_series:
  "clean_series (3/2) [1, 0, 0, 0, 0, 0, 2, 2, 2, 2, 2] = [1, 0, 0, 0, 0, 0, 2, 2, 2, 2, 2]"
  "pd_std [1, 0, 0, 0, 0, 0, 2, 2, 2, 2, 2] = Fin 1"
  "classify (3/2) [1, 0, 0, 0, 0, 0, 2, 2, 2, 2, 2] ''accuracy'' =
     \<lparr>needs_improvement = False, z_score = Fin 1, recent_performance_mean = Fin 2,
      recent_performance_vs_historical = Fin 100, suggested_target = Fin 2\<rparr>"
proof -
  show c: "clean_series (3/2) [1, 0, 0, 0, 0, 0, 2, 2, 2, 2, 2] = [1, 0, 0, 0, 0, 0, 2, 2, 2, 2, 2]"
    by (simp add: clean_series_def detect_outliers_def Let_def pd_quantile_def quantile_r_def
          select_not_def fl_defs)
  show s: "pd_std [1, 0, 0, 0, 0, 0, 2, 2, 2, 2, 2] = Fin 1"
    by (simp add: pd_std_def var_r_def mean_r_def)
  show "classify (3/2) [1, 0, 0, 0, 0, 0, 2, 2, 2, 2, 2] ''accuracy'' =
     \<lparr>needs_improvement = False, z_score = Fin 1, recent_performance_mean = Fin 2,
      recent_performance_vs_historical = Fin 100, suggested_target = Fin 2\<rparr>"
    unfolding classify_def c
    by (simp add: analyze_improvement_needs_def Let_def s pd_mean_def mean_r_def tail_def
          config_of_def metric_configs_def fl_defs)
qed

text \<open>
  The series \<open>[1, 2, 3]\<close> has no outliers, mean 2 and standard deviation 1, so
  its analysis suggests the target 3.  The later series of \<open>1, 2, 3\<close>, seventeen
  times 5 and five times 3 has no outliers either, mean 4.24 and standard
  deviation 1.2; its last five observations have the mean 3.
\<close>

lemma earlier_series:
  "classify (3/2) [1, 2, 3] ''accuracy'' =
     \<lparr>needs_improvement = False, z_score = Fin 0, recent_performance_mean = Fin 2,
      recent_performance_vs_historical = Fin 0, suggested_target = Fin 3\<rparr>"
  by (simp add: classify_def clean_series_def detect_outliers_def Let_def
        analyze_improvement_needs_def pd_defs config_of_def metric_configs_def fl_defs)

lemma later_series:
  "clean_series (3/2)
     [1, 2, 3, 5, 5, 5, 5, 5, 5, 5, 5, 5, 5, 5, 5, 5, 5, 5, 5, 5, 3, 3, 3, 3, 3] =
     [1, 2, 3, 5, 5, 5, 5, 5, 5, 5, 5, 5, 5, 5, 5, 5, 5, 5, 5, 5, 3, 3, 3, 3, 3]"
  "pd_std [1, 2, 3, 5, 5, 5, 5, 5, 5, 5, 5, 5, 5, 5, 5, 5, 5, 5, 5, 5, 3, 3, 3, 3, 3] = Fin (6/5)"
proof -
  show "clean_series (3/2)
     [1, 2, 3, 5, 5, 5, 5, 5, 5, 5, 5, 5, 5, 5, 5, 5, 5, 5, 5, 5, 3, 3, 3, 3, 3] =
     [1, 2, 3, 5, 5, 5, 5, 5, 5, 5, 5, 5, 5, 5, 5, 5, 5, 5, 5, 5, 3, 3, 3, 3, 3]"
    by (simp add: clean_series_def detect_outliers_def Let_def pd_quantile_def quantile_r_def
          select_not_def fl_defs)
  have v: "var_r [1, 2, 3, 5, 5, 5, 5, 5, 5, 5, 5, 5, 5, 5, 5, 5, 5, 5, 5, 5, 3, 3, 3, 3, 3]
      = 36/25"
    by (simp add: var_r_def mean_r_def power2_eq_square)
  have r: "sqrt (36/25) = 6/5"
    by (rule real_sqrt_unique) (simp_all add: power2_eq_square)
  show "pd_std [1, 2, 3, 5, 5, 5, 5, 5, 5, 5, 5, 5, 5, 5, 5, 5, 5, 5, 5, 5, 3, 3, 3, 3, 3]
      = Fin (6/5)"
    by (simp add: pd_std_def v r)
qed

lemma later_classify:
  "classify (3/2) [1, 2, 3, 5, 5, 5, 5, 5, 5, 5, 5, 5, 5, 5, 5, 5, 5, 5, 5, 5, 3, 3, 3, 3, 3]
     ''accuracy'' =
     \<lparr>needs_improvement = True, z_score = Fin (- (31/30)), recent_performance_mean = Fin 3,
      recent_performance_vs_historical = Fin (- (1550/53)), suggested_target = Fin (136/25)\<rparr>"
  unfolding classify_def later_series(1)
  by (simp add: analyze_improvement_needs_def Let_def later_series(2) pd_mean_def mean_r_def
        tail_def config_of_def metric_configs_def fl_defs)

text \<open>
  C8 (amended): let the analysis of a series have a positive clean standard
  deviation \<open>s\<close>, and let the mean of its last five raw observations equal the
  target this same analysis suggests.  Then that target is the clean mean plus
  \<open>s\<close> for a higher-is-better metric and minus \<open>s\<close> for a lower-is-better
  one, the z-score is 1 (respectively \<open>-1\<close>), and the analysis reports no need
  for improvement.
\<close>

theorem suggested_target_round_trip:
  assumes "analyze_metric k ttest data metric = Inr m"
    and "std (clean_stats m) = Fin s" and "0 < s"
    and "recent_performance_mean (improvement_analysis m) = suggested_target (improvement_analysis m)"
  shows "suggested_target (improvement_analysis m) =
           fadd (mean (clean_stats m))
                (if higher_better (config_of metric) then Fin s else Fin (- s))
         \<and> z_score (improvement_analysis m) =
           Fin (if higher_better (config_of metric) then 1 else - 1)
         \<and> \<not> needs_improvement (improvement_analysis m)"
proof -
  let ?clean = "clean_series k data"
  note link = analyze_metric_classify [OF assms(1)]
  have s: "pd_std ?clean = Fin s" using assms(2) link(2) by simp
  then have "\<not> length ?clean < 2" by (auto simp: pd_std_def split: if_splits)
  then have "?clean \<noteq> []" by auto
  then have mean: "pd_mean ?clean = Fin (mean_r ?clean)" by (simp add: pd_mean_def)
  have recent: "recent_performance_mean (classify k data metric) = pd_mean (tail 5 data)"
    by (simp add: classify_def analyze_improvement_needs_def Let_def)
  have hyp: "pd_mean (tail 5 data) =
      suggested_target (analyze_improvement_needs data ?clean metric)"
    using assms(4) recent unfolding link(1) by (simp add: classify_def)
  from round_trip_same_baseline [OF s assms(3) hyp] mean
  show ?thesis
    unfolding link(1) link(3) classify_def by (auto split: if_splits)
qed

text \<open>
  The theorem for \<open>accuracy\<close> on the series \<open>[1, 0, 0, 0, 0, 0, 2, 2, 2, 2, 2]\<close>,
  with a p-value function that is constantly \<open>nan\<close>.
\<close>

theorem suggested_target_round_trip_witness:
  "\<exists>m. analyze_metric (3/2) (\<lambda>df t. NaN) [1, 0, 0, 0, 0, 0, 2, 2, 2, 2, 2] ''accuracy'' = Inr m
     \<and> std (clean_stats m) = Fin 1 \<and> (0::real) < 1
     \<and> recent_performance_mean (improvement_analysis m) = suggested_target (improvement_analysis m)
     \<and> suggested_target (improvement_analysis m) = Fin 2
     \<and> z_score (improvement_analysis m) = Fin 1
     \<and> \<not> needs_improvement (improvement_analysis m)"
proof -
  let ?D = "[1, 0, 0, 0, 0, 0, 2, 2, 2, 2, 2] :: real list"
  obtain m where m: "analyze_metric (3/2) (\<lambda>df t. NaN) ?D ''accuracy'' = Inr m"
    using analyze_metric_defined [of ?D "3/2" "\<lambda>df t. NaN" "''accuracy''"] by auto
  note link = analyze_metric_classify [OF m]
  have h2: "std (clean_stats m) = Fin 1"
    using link(2) by (simp add: round_trip_series)
  have h3: "(0::real) < 1" by simp
  have h4: "recent_performance_mean (improvement_analysis m) =
      suggested_target (improvement_analysis m)"
    using link(1) by (simp add: round_trip_series)
  have t: "suggested_target (improvement_analysis m) = Fin 2"
    using link(1) by (simp add: round_trip_series)
  have hb: "higher_better (config_of ''accuracy'')"
    by (simp add: config_of_def metric_configs_def)
  from suggested_target_round_trip [OF m h2 h3 h4] hb
  have "z_score (improvement_analysis m) = Fin 1"
    "\<not> needs_improvement (improvement_analysis m)" by simp_all
  with m h2 h3 h4 t show ?thesis by blast
qed

text \<open>
  A target suggested by an earlier analysis does not carry over: the analysis
  of \<open>[1, 2, 3]\<close> suggests 3 for \<open>accuracy\<close>; the later series has a positive
  clean standard deviation and a recent mean of exactly 3, and its analysis
  has the z-score \<open>-31/30\<close> and reports a need for improvement.
\<close>

theorem suggested_target_round_trip_across_analyses:
  "suggested_target (classify (3/2) [1, 2, 3] ''accuracy'') = Fin 3
   \<and> pd_std (clean_series (3/2)
        [1, 2, 3, 5, 5, 5, 5, 5, 5, 5, 5, 5, 5, 5, 5, 5, 5, 5, 5, 5, 3, 3, 3, 3, 3]) = Fin (6/5)
   \<and> recent_performance_mean (classify (3/2)
        [1, 2, 3, 5, 5, 5, 5, 5, 5, 5, 5, 5, 5, 5, 5, 5, 5, 5, 5, 5, 3, 3, 3, 3, 3]
        ''accuracy'') = Fin 3
   \<and> z_score (classify (3/2)
        [1, 2, 3, 5, 5, 5, 5, 5, 5, 5, 5, 5, 5, 5, 5, 5, 5, 5, 5, 5, 3, 3, 3, 3, 3]
        ''accuracy'') = Fin (- (31/30))
   \<and> needs_improvement (classify (3/2)
        [1, 2, 3, 5, 5, 5, 5, 5, 5, 5, 5, 5, 5, 5, 5, 5, 5, 5, 5, 5, 3, 3, 3, 3, 3]
        ''accuracy'')"
  by (simp add: earlier_series later_classify later_series)

section \<open>The accuracy scenario\<close>

text \<open>
  The series \<open>[70, 71, 69, 70, 68, 70, 71, 40, 40, 40]\<close> at the multiplier 1.5:
  the quartiles are 47 and 70, the bounds 12.5 and 104.5, and no observation
  lies outside them.  The variance of the whole series is \<open>6263/30\<close>, its
  square root lies between 14.3 and 14.5.
\<close>

lemma scenario_outliers:
  "detect_outliers (3/2) [70, 71, 69, 70, 68, 70, 71, 40, 40, 40] =
     ([False, False, False, False, False, False, False, False, False, False],
      \<lparr>total_outliers = 0, outlier_percentage = Fin 0,
       lower_bound = Fin (25/2), upper_bound = Fin (209/2)\<rparr>)"
  by (simp add: detect_outliers_def pd_quantile_def quantile_r_def Let_def fl_defs)

lemma scenario_std:
  "pd_std [70, 71, 69, 70, 68, 70, 71, 40, 40, 40] = Fin (sqrt (6263/30))"
  by (simp add: pd_std_def var_r_def mean_r_def power2_eq_square)

lemma scenario_mean:
  "pd_mean [70, 71, 69, 70, 68, 70, 71, 40, 40, 40] = Fin (609/10)"
  by (simp add: pd_mean_def mean_r_def)

lemma scenario_sqrt_bounds:
  "143/10 < sqrt (6263/30)" "sqrt (6263/30) < 29/2"
proof -
  show "143/10 < sqrt (6263/30)"
    by (rule real_less_rsqrt) (simp add: power2_eq_square)
  show "sqrt (6263/30) < 29/2"
    by (rule real_less_lsqrt) (simp_all add: power2_eq_square)
qed

lemma scenario_z_bounds:
  "- (61/100) < - (87 / (10 * sqrt (6263/30)))" "- (87 / (10 * sqrt (6263/30))) < - (60/100)"
proof -
  have pos: "0 < sqrt (6263/30)" by simp
  from scenario_sqrt_bounds(1) pos show "- (61/100) < - (87 / (10 * sqrt (6263/30)))"
    by (simp add: field_simps)
  from scenario_sqrt_bounds(2) pos show "- (87 / (10 * sqrt (6263/30))) < - (60/100)"
    by (simp add: field_simps)
qed

lemma scenario_improvement:
  "analyze_improvement_needs [70, 71, 69, 70, 68, 70, 71, 40, 40, 40]
      [70, 71, 69, 70, 68, 70, 71, 40, 40, 40] ''accuracy'' =
     \<lparr>needs_improvement = False,
      z_score = Fin (- (87 / (10 * sqrt (6263/30)))),
      recent_performance_mean = Fin (261/5),
      recent_performance_vs_historical = Fin (- (100/7)),
      suggested_target = Fin (609/10 + sqrt (6263/30))\<rparr>"
  using scenario_sqrt_bounds(1)
  by (simp add: analyze_improvement_needs_def Let_def scenario_std pd_mean_def mean_r_def tail_def
        config_of_def metric_configs_def fl_defs)

lemma scenario_trend:
  "\<exists>tr. calculate_trend ttest [70, 71, 69, 70, 68, 70, 71, 40, 40, 40] = Inr tr"
  by (simp add: calculate_trend_def linregress_def arange_def Let_def upt_rec split: prod.splits)

text \<open>
  C2 (amended): for the accuracy series \<open>[70, 71, 69, 70, 68, 70, 71, 40, 40, 40]\<close>
  and the multiplier 1.5 the analysis flags no observation as an outlier (the
  bounds are 12.5 and 104.5), so the clean series is the whole series, with
  mean 60.9 and standard deviation \<open>sqrt (6263/30)\<close>, about 14.45; the mean of
  the last five raw observations is 52.2; the z-score lies between \<open>-0.61\<close>
  and \<open>-0.60\<close>; \<open>needs_improvement\<close> is false; and the suggested target is the
  clean mean plus the clean standard deviation.
\<close>

theorem accuracy_scenario:
  "\<exists>m. analyze_performance (3/2) ttest
          (Map.empty(''accuracy'' \<mapsto> [70, 71, 69, 70, 68, 70, 71, 40, 40, 40]))
        = Inr [(''accuracy'', m)]
     \<and> fst (detect_outliers (3/2) [70, 71, 69, 70, 68, 70, 71, 40, 40, 40]) =
         [False, False, False, False, False, False, False, False, False, False]
     \<and> outlier_stats m =
         \<lparr>total_outliers = 0, outlier_percentage = Fin 0,
          lower_bound = Fin (25/2), upper_bound = Fin (209/2)\<rparr>
     \<and> mean (clean_stats m) = Fin (609/10)
     \<and> std (clean_stats m) = Fin (sqrt (6263/30))
     \<and> recent_performance_mean (improvement_analysis m) = Fin (261/5)
     \<and> (\<exists>z. z_score (improvement_analysis m) = Fin z \<and> - (61/100) < z \<and> z < - (60/100))
     \<and> \<not> needs_improvement (improvement_analysis m)
     \<and> suggested_target (improvement_analysis m) =
         fadd (mean (clean_stats m)) (std (clean_stats m))"
proof -
  let ?S = "[70, 71, 69, 70, 68, 70, 71, 40, 40, 40] :: real list"
  obtain tr where tr: "calculate_trend ttest ?S = Inr tr"
    using scenario_trend by blast
  have clean: "select_not [False, False, False, False, False, False, False, False, False, False]
      ?S = ?S"
    by (simp add: select_not_def)
  define M where "M =
    \<lparr>current_stats = \<lparr>mean = pd_mean ?S, median = pd_quantile (1/2) ?S, std = pd_std ?S,
                       trend = tr\<rparr>,
     outlier_stats = snd (detect_outliers (3/2) ?S),
     clean_stats = \<lparr>mean = pd_mean ?S, median = pd_quantile (1/2) ?S, std = pd_std ?S\<rparr>,
     improvement_analysis = analyze_improvement_needs ?S ?S ''accuracy''\<rparr>"
  have perf: "analyze_performance (3/2) ttest (Map.empty(''accuracy'' \<mapsto> ?S))
        = Inr [(''accuracy'', M)]"
    unfolding M_def analyze_performance_def
    by (simp add: analyze_metric_def scenario_outliers clean tr Let_def)
  have z: "\<exists>z. z_score (improvement_analysis M) = Fin z \<and> - (61/100) < z \<and> z < - (60/100)"
    unfolding M_def using scenario_z_bounds
    by (intro exI [of _ "- (87 / (10 * sqrt (6263/30)))"]) (simp add: scenario_improvement)
  have rest: "fst (detect_outliers (3/2) ?S) =
         [False, False, False, False, False, False, False, False, False, False]"
    "outlier_stats M =
         \<lparr>total_outliers = 0, outlier_percentage = Fin 0,
          lower_bound = Fin (25/2), upper_bound = Fin (209/2)\<rparr>"
    "mean (clean_stats M) = Fin (609/10)"
    "std (clean_stats M) = Fin (sqrt (6263/30))"
    "recent_performance_mean (improvement_analysis M) = Fin (261/5)"
    "\<not> needs_improvement (improvement_analysis M)"
    "suggested_target (improvement_analysis M) =
         fadd (mean (clean_stats M)) (std (clean_stats M))"
    unfolding M_def
    by (simp_all add: scenario_outliers scenario_mean scenario_std scenario_improvement)
  from perf z rest show ?thesis by blast
qed

text \<open>
  The mask is not the one with the three trailing values flagged, the analysis
  does not report a need for improvement, and the recent mean is 52.2.
\<close>

theorem accuracy_scenario_not_as_specified:
  "fst (detect_outliers (3/2) [70, 71, 69, 70, 68, 70, 71, 40, 40, 40]) \<noteq>
     [False, False, False, False, False, False, False, True, True, True]
   \<and> \<not> needs_improvement
        (analyze_improvement_needs [70, 71, 69, 70, 68, 70, 71, 40, 40, 40]
          (select_not (fst (detect_outliers (3/2) [70, 71, 69, 70, 68, 70, 71, 40, 40, 40]))
             [70, 71, 69, 70, 68, 70, 71, 40, 40, 40])
          ''accuracy'')
   \<and> recent_performance_mean
        (analyze_improvement_needs [70, 71, 69, 70, 68, 70, 71, 40, 40, 40]
          (select_not (fst (detect_outliers (3/2) [70, 71, 69, 70, 68, 70, 71, 40, 40, 40]))
             [70, 71, 69, 70, 68, 70, 71, 40, 40, 40])
          ''accuracy'') = Fin (261/5)"
proof -
  have clean: "select_not [False, False, False, False, False, False, False, False, False, False]
      [70, 71, 69, 70, 68, 70, 71, 40, 40, 40::real] = [70, 71, 69, 70, 68, 70, 71, 40, 40, 40]"
    by (simp add: select_not_def)
  show ?thesis
    by (simp add: scenario_outliers clean scenario_improvement)
qed

section \<open>Milestone interpolation\<close>













section \<open>The overall progress score\<close>

text \<open>
  The final \<open>min(100, max(0, x))\<close> yields a finite number between 0 and 100
  whatever \<open>x\<close> is, also for \<open>nan\<close> and the infinities.  On finite numbers
  Python's \<open>max\<close> over the signed strengths is the maximum, \<open>sum\<close> is the sum,
  and the loop computes the scores of the specification.
\<close>

lemma clamp_range:
  "\<exists>s. py_min (Fin 100) (py_max (Fin 0) x) = Fin s \<and> 0 \<le> s \<and> s \<le> 100"
  by (cases x) (auto simp: py_min_def py_max_def fgt_def)

lemma clamp_finite:
  "py_min (Fin 100) (py_max (Fin 0) (Fin x)) = Fin (max 0 (min 100 x))"
  by (auto simp: py_min_def py_max_def fgt_def)

lemma progress_scores_defined:
  assumes "list_all (\<lambda>a. trend_analysis a \<noteq> []) entries"
  shows "\<exists>scores. progress_scores entries = Inr scores \<and> length scores = length entries"
  using assms
proof (induction entries)
  case Nil
  then show ?case by simp
next
  case (Cons a entries)
  then obtain scores where s: "progress_scores entries = Inr scores" "length scores = length entries"
    by auto
  from Cons.prems obtain p ps where "trend_analysis a = p # ps"
    by (cases "trend_analysis a") auto
  with s show ?case by simp
qed

lemma foldl_py_max_finite:
  "foldl py_max (Fin a) (map Fin xs) = Fin (fold max xs a)"
proof (induction xs arbitrary: a)
  case Nil
  then show ?case by simp
next
  case (Cons x xs)
  have "py_max (Fin a) (Fin x) = Fin (max x a)"
    by (simp add: py_max_def fgt_def max_def)
  with Cons show ?case by simp
qed

lemma py_max_iter_finite:
  assumes "xs \<noteq> []"
  shows "py_max_iter (map Fin xs) = Inr (Fin (Max (set xs)))"
proof -
  from assms obtain y ys where xs: "xs = y # ys" by (cases xs) auto
  show ?thesis
    unfolding xs
    by (simp only: list.map py_max_iter.simps foldl_py_max_finite Max.set_eq_fold)
qed

lemma signed_strength_finite:
  assumes "is_fin (strength tr)"
  shows "signed_strength tr = Fin (signed_strength_spec tr)"
  using assms
  by (cases "strength tr") (simp_all add: signed_strength_def signed_strength_spec_def is_fin_def fin_val_def)

lemma signed_strengths_finite:
  assumes "list_all (\<lambda>(name, tr). is_fin (strength tr)) ta"
  shows "map (\<lambda>(name, tr). signed_strength tr) ta =
           map Fin (map (\<lambda>(name, tr). signed_strength_spec tr) ta)"
  using assms by (induction ta) (auto simp: signed_strength_finite)

lemma progress_scores_finite:
  assumes "list_all (\<lambda>a. trend_analysis a \<noteq> []) entries"
    and "list_all finite_entry entries"
  shows "progress_scores entries = Inr (map (\<lambda>a. Fin (metric_score_spec a)) entries)"
  using assms
proof (induction entries)
  case Nil
  then show ?case by simp
next
  case (Cons a entries)
  then have rest: "progress_scores entries = Inr (map (\<lambda>a. Fin (metric_score_spec a)) entries)"
    by simp
  from Cons.prems have ne: "trend_analysis a \<noteq> []"
    and fin: "list_all (\<lambda>(name, tr). is_fin (strength tr)) (trend_analysis a)"
    and mp: "is_fin (total_progress (milestone_progress a))"
    by (simp_all add: finite_entry_def)
  from mp obtain p where p: "total_progress (milestone_progress a) = Fin p"
    by (cases "total_progress (milestone_progress a)") (simp_all add: is_fin_def)
  have "py_max_iter (map (\<lambda>(name, tr). signed_strength tr) (trend_analysis a)) =
          Inr (Fin (Max (set (map (\<lambda>(name, tr). signed_strength_spec tr) (trend_analysis a)))))"
    unfolding signed_strengths_finite [OF fin]
    using ne by (intro py_max_iter_finite) simp
  with rest p show ?case
    by (simp add: metric_score_spec_def fin_val_def)
qed

lemma py_sum_finite: "py_sum (map Fin xs) = Fin (sum_list xs)"
proof -
  have "foldl fadd (Fin a) (map Fin xs) = Fin (a + sum_list xs)" for a
    by (induction xs arbitrary: a) (simp_all add: algebra_simps)
  from this [of 0] show ?thesis by (simp add: py_sum_def)
qed

text \<open>
  On every non-empty report in which each metric has at least one trend entry
  the overall progress is computed and lies in \<open>[0, 100]\<close>, whatever the
  milestone progress and the trend strengths are (infinities and \<open>nan\<close>
  included); when these numbers are finite it equals the average over the
  metrics of milestone progress times one plus the largest signed trend
  strength (positive if improving, negative if declining), clamped to
  \<open>[0, 100]\<close>.
\<close>

theorem overall_progress_score:
  assumes "report \<noteq> []"
    and "list_all (\<lambda>(metric, a). trend_analysis a \<noteq> []) report"
  shows "\<exists>s. calculate_overall_progress report = Inr (Fin s) \<and> 0 \<le> s \<and> s \<le> 100
           \<and> (list_all (\<lambda>(metric, a). finite_entry a) report \<longrightarrow> s = overall_progress_spec report)"
proof -
  from assms(2) have ne: "list_all (\<lambda>a. trend_analysis a \<noteq> []) (map snd report)"
    by (induction report) auto
  then obtain scores where scores: "progress_scores (map snd report) = Inr scores"
    "length scores = length report"
    using progress_scores_defined by fastforce
  let ?avg = "fdiv (py_sum scores) (Fin (real (length scores)))"
  from clamp_range obtain s where s: "py_min (Fin 100) (py_max (Fin 0) ?avg) = Fin s"
    "0 \<le> s" "s \<le> 100" by blast
  have val: "calculate_overall_progress report = Inr (Fin s)"
    using assms(1) scores s(1) by (simp add: calculate_overall_progress_def)
  have "s = overall_progress_spec report" if fin: "list_all (\<lambda>(metric, a). finite_entry a) report"
  proof -
    from fin have "list_all finite_entry (map snd report)"
      by (induction report) auto
    from progress_scores_finite [OF ne this] scores(1)
    have sc: "scores = map Fin (map (\<lambda>a. metric_score_spec a) (map snd report))"
      by simp
    have len: "real (length scores) \<noteq> 0" using assms(1) scores(2) by simp
    have avg: "?avg = Fin (sum_list (map (\<lambda>a. metric_score_spec a) (map snd report))
                        / real (length report))"
      using len unfolding sc py_sum_finite by simp
    have eq: "(\<lambda>(metric, a). metric_score_spec a) = metric_score_spec \<circ> snd"
      by (auto simp: fun_eq_iff)
    show ?thesis
      using s(1) avg by (simp add: clamp_finite overall_progress_spec_def eq)
  qed
  with val s(2,3) show ?thesis by blast
qed

text \<open>
  A report of two metrics with the same milestone progress 100, one with trend
  strength 1 improving and one with strength 1 declining: the scores are 200
  and 0, the overall progress is 100.
\<close>

theorem overall_progress_score_witness:
  "let report =
     [(''accuracy'',
       \<lparr>current_value = Fin 60, target_value = Some (Fin 50), historical_comparison = [],
        trend_analysis =
          [(''short_term'',
            \<lparr>slope = Fin 1, direction = Improving, strength = Fin 1,
             significance = True, volatility = Fin 0\<rparr>)],
        improvement_rate = [],
        milestone_progress =
          \<lparr>total_progress = Fin 100, next_milestone = None,
           remaining_milestones = [], completed_milestones = []\<rparr>\<rparr>),
      (''teamwork'',
       \<lparr>current_value = Fin 60, target_value = Some (Fin 50), historical_comparison = [],
        trend_analysis =
          [(''short_term'',
            \<lparr>slope = Fin (- 1), direction = Declining, strength = Fin 1,
             significance = True, volatility = Fin 0\<rparr>)],
        improvement_rate = [],
        milestone_progress =
          \<lparr>total_progress = Fin 100, next_milestone = None,
           remaining_milestones = [], completed_milestones = []\<rparr>\<rparr>)]
   in report \<noteq> []
      \<and> list_all (\<lambda>(metric, a). trend_analysis a \<noteq> []) report
      \<and> list_all (\<lambda>(metric, a). finite_entry a) report
      \<and> overall_progress_spec report = 100
      \<and> calculate_overall_progress report = Inr (Fin 100)"
proof -
  define report where "report =
     [(''accuracy'',
       \<lparr>current_value = Fin 60, target_value = Some (Fin 50), historical_comparison = [],
        trend_analysis =
          [(''short_term'',
            \<lparr>slope = Fin 1, direction = Improving, strength = Fin 1,
             significance = True, volatility = Fin 0\<rparr>)],
        improvement_rate = [],
        milestone_progress =
          \<lparr>total_progress = Fin 100, next_milestone = None,
           remaining_milestones = [], completed_milestones = []\<rparr>\<rparr>),
      (''teamwork'',
       \<lparr>current_value = Fin 60, target_value = Some (Fin 50), historical_comparison = [],
        trend_analysis =
          [(''short_term'',
            \<lparr>slope = Fin (- 1), direction = Declining, strength = Fin 1,
             significance = True, volatility = Fin 0\<rparr>)],
        improvement_rate = [],
        milestone_progress =
          \<lparr>total_progress = Fin 100, next_milestone = None,
           remaining_milestones = [], completed_milestones = []\<rparr>\<rparr>)]"
  have h1: "report \<noteq> []" by (simp add: report_def)
  have h2: "list_all (\<lambda>(metric, a). trend_analysis a \<noteq> []) report"
    by (simp add: report_def)
  have h3: "list_all (\<lambda>(metric, a). finite_entry a) report"
    by (simp add: report_def finite_entry_def is_fin_def)
  have h4: "overall_progress_spec report = 100"
    by (simp add: report_def overall_progress_spec_def metric_score_spec_def
          signed_strength_spec_def fin_val_def)
  from overall_progress_score [OF h1 h2] h3 h4
  have "calculate_overall_progress report = Inr (Fin 100)" by auto
  with h1 h2 h3 h4 show ?thesis unfolding report_def Let_def by blast
qed

text \<open>
  C4: the overall progress should be defined and lie in \<open>[0, 100]\<close> for every
  non-empty report.  On a report of two metrics with milestone progress 100,
  the first with a trend of strength 1 improving and the second without any
  trend entry, the computation raises the \<open>ValueError\<close> of \<open>max\<close> on an empty
  sequence and returns no score.
\<close>

theorem overall_progress_raises_without_trend:
  "calculate_overall_progress
     [(''accuracy'',
       \<lparr>current_value = Fin 60, target_value = Some (Fin 50), historical_comparison = [],
        trend_analysis =
          [(''short_term'',
            \<lparr>slope = Fin 1, direction = Improving, strength = Fin 1,
             significance = True, volatility = Fin 0\<rparr>)],
        improvement_rate = [],
        milestone_progress =
          \<lparr>total_progress = Fin 100, next_milestone = None,
           remaining_milestones = [], completed_milestones = []\<rparr>\<rparr>),
      (''teamwork'',
       \<lparr>current_value = Fin 60, target_value = Some (Fin 50), historical_comparison = [],
        trend_analysis = [], improvement_rate = [],
        milestone_progress =
          \<lparr>total_progress = Fin 100, next_milestone = None,
           remaining_milestones = [], completed_milestones = []\<rparr>\<rparr>)]
   = Inl ValueError"
  by (simp add: calculate_overall_progress_def)

end
